theory Spec2Isabelle
  imports Complex_Main "HOL-Library.AList"
begin

section \<open>JavaScript numbers\<close>

text \<open>
  A JavaScript number is modelled as an exact real or one of the three special values
  that the IEEE operations produce: \<open>Infinity\<close>, \<open>-Infinity\<close> and \<open>NaN\<close>.
  Finite results are not rounded and do not overflow. Zero carries no sign: \<open>Num 0\<close>
  stands for \<open>+0\<close>, so a nonzero finite number divided by zero gives the infinity of
  the sign of the dividend, where JavaScript gives the opposite one for a divisor \<open>-0\<close>.
  No general statement below depends on which of the two infinities such a quotient is.
  The special values propagate through every operation as they do in JavaScript.
\<close>

datatype jsnum = Num real | PosInf | NegInf | NaN

fun js_neg :: "jsnum \<Rightarrow> jsnum" where
  "js_neg (Num a) = Num (- a)"
| "js_neg PosInf = NegInf"
| "js_neg NegInf = PosInf"
| "js_neg NaN = NaN"

fun js_add :: "jsnum \<Rightarrow> jsnum \<Rightarrow> jsnum" where
  "js_add (Num a) (Num b) = Num (a + b)"
| "js_add NaN _ = NaN"
| "js_add _ NaN = NaN"
| "js_add PosInf NegInf = NaN"
| "js_add NegInf PosInf = NaN"
| "js_add PosInf _ = PosInf"
| "js_add _ PosInf = PosInf"
| "js_add NegInf _ = NegInf"
| "js_add _ NegInf = NegInf"

definition js_sub :: "jsnum \<Rightarrow> jsnum \<Rightarrow> jsnum" where
  "js_sub a b = js_add a (js_neg b)"

fun is_negative :: "jsnum \<Rightarrow> bool" where
  "is_negative (Num a) = (a < 0)"
| "is_negative NegInf = True"
| "is_negative _ = False"

fun js_mul :: "jsnum \<Rightarrow> jsnum \<Rightarrow> jsnum" where
  "js_mul (Num a) (Num b) = Num (a * b)"
| "js_mul a b =
     (if a = NaN \<or> b = NaN \<or> a = Num 0 \<or> b = Num 0 then NaN
      else if is_negative a \<noteq> is_negative b then NegInf else PosInf)"

fun js_div :: "jsnum \<Rightarrow> jsnum \<Rightarrow> jsnum" where
  "js_div (Num a) (Num b) =
     (if b = 0 then (if a = 0 then NaN else if 0 < a then PosInf else NegInf)
      else Num (a / b))"
| "js_div NaN _ = NaN"
| "js_div _ NaN = NaN"
| "js_div (Num a) _ = Num 0"
| "js_div a (Num b) = (if is_negative a \<noteq> (b < 0) then NegInf else PosInf)"
| "js_div _ _ = NaN"

text \<open>\<open>Math.sqrt\<close>, \<open>Math.round\<close> (half up), \<open>Math.abs\<close>, \<open>Math.pow(x, 2)\<close>
  and \<open>Math.max\<close> of two arguments.\<close>

fun js_sqrt :: "jsnum \<Rightarrow> jsnum" where
  "js_sqrt (Num a) = (if a < 0 then NaN else Num (sqrt a))"
| "js_sqrt PosInf = PosInf"
| "js_sqrt _ = NaN"

fun js_round :: "jsnum \<Rightarrow> jsnum" where
  "js_round (Num a) = Num (of_int \<lfloor>a + 1 / 2\<rfloor>)"
| "js_round a = a"

fun js_abs :: "jsnum \<Rightarrow> jsnum" where
  "js_abs (Num a) = Num \<bar>a\<bar>"
| "js_abs NaN = NaN"
| "js_abs _ = PosInf"

fun js_pow2 :: "jsnum \<Rightarrow> jsnum" where
  "js_pow2 (Num a) = Num (a\<^sup>2)"
| "js_pow2 NaN = NaN"
| "js_pow2 _ = PosInf"

text \<open>Comparisons: every comparison with \<open>NaN\<close> is false.\<close>

fun js_lt :: "jsnum \<Rightarrow> jsnum \<Rightarrow> bool" where
  "js_lt (Num a) (Num b) = (a < b)"
| "js_lt NaN _ = False"
| "js_lt _ NaN = False"
| "js_lt _ NegInf = False"
| "js_lt PosInf _ = False"
| "js_lt _ _ = True"

definition js_le :: "jsnum \<Rightarrow> jsnum \<Rightarrow> bool" where
  "js_le a b = (a \<noteq> NaN \<and> b \<noteq> NaN \<and> (a = b \<or> js_lt a b))"

definition js_gt :: "jsnum \<Rightarrow> jsnum \<Rightarrow> bool" where
  "js_gt a b = js_lt b a"

definition js_max :: "jsnum \<Rightarrow> jsnum \<Rightarrow> jsnum" where
  "js_max a b = (if a = NaN \<or> b = NaN then NaN else if js_lt a b then b else a)"

text \<open>Truthiness of a number: \<open>0\<close> and \<open>NaN\<close> are falsy.\<close>

definition truthy :: "jsnum \<Rightarrow> bool" where
  "truthy a = (a \<noteq> Num 0 \<and> a \<noteq> NaN)"

text \<open>\<open>values.reduce((a, b) => a + b, 0)\<close>.\<close>

definition js_sum :: "jsnum list \<Rightarrow> jsnum" where
  "js_sum xs = foldl js_add (Num 0) xs"

definition js_len :: "'a list \<Rightarrow> jsnum" where
  "js_len xs = Num (of_nat (length xs))"

section \<open>RankPredictor.js\<close>

text \<open>
  The objects the predictor reads. \<open>normalizeScore\<close> is applied both to the current
  performance and to each historical record, reading \<open>accuracy\<close> and \<open>speed\<close> of either,
  so the historical record extends the performance record. The routes hand one history
  to the predictor and to the analyzer, which also reads the questions of each quiz.
  A field holds the number the arithmetic reads from it: \<open>NaN\<close> for an absent rank,
  0 for a rank that is \<open>null\<close>.
\<close>

record question =
  q_id :: string
  q_topic :: string
  correctOption :: string

record performance =
  accuracy :: jsnum
  speed :: jsnum

record history_entry = performance +
  score :: jsnum
  rank :: jsnum
  questions :: "question list"

record cutoff_range =
  range_min :: jsnum
  range_max :: jsnum

record college =
  name :: string
  probability :: jsnum
  cutoffRange :: cutoff_range

record interval =
  lower :: jsnum
  upper :: jsnum

definition calculateConsistency :: "history_entry list \<Rightarrow> jsnum" where
  "calculateConsistency historicalData =
     (let scores = map score historicalData in
      if length scores < 2 then Num 1
      else
        let mean = js_div (js_sum scores) (js_len scores);
            variance = js_div
              (foldl (\<lambda>sum s. js_add sum (js_pow2 (js_sub s mean))) (Num 0) scores)
              (js_len scores)
        in js_sub (Num 1) (js_div (js_sqrt variance) mean))"

definition calculateImprovement :: "history_entry list \<Rightarrow> jsnum" where
  "calculateImprovement historicalData =
     (let scores = map score historicalData in
      if length scores < 2 then Num 0
      else
        let firstScore = hd scores;
            lastScore = last scores
        in js_div (js_sub lastScore firstScore) firstScore)"

definition normalizeScore :: "history_entry list \<Rightarrow> 'a performance_scheme \<Rightarrow> jsnum" where
  "normalizeScore historicalData p =
     js_add (js_add (js_add
       (js_mul (accuracy p) (Num (4 / 10)))
       (js_mul (speed p) (Num (2 / 10))))
       (js_mul (calculateConsistency historicalData) (Num (2 / 10))))
       (js_mul (calculateImprovement historicalData) (Num (2 / 10)))"

definition calculateHistoricalCorrelation :: "history_entry list \<Rightarrow> jsnum" where
  "calculateHistoricalCorrelation historicalData =
     (let scores = map score historicalData;
          ranks = map rank historicalData in
      if length scores < 2 then Num 1
      else
        let meanScore = js_div (js_sum scores) (js_len scores);
            meanRank = js_div (js_sum ranks) (js_len ranks);
            numerator = foldl (\<lambda>sum (s, r).
              js_add sum (js_mul (js_sub s meanScore) (js_sub r meanRank)))
              (Num 0) (zip scores ranks);
            denominator = js_sqrt (js_mul
              (foldl (\<lambda>sum s. js_add sum (js_pow2 (js_sub s meanScore))) (Num 0) scores)
              (foldl (\<lambda>sum r. js_add sum (js_pow2 (js_sub r meanRank))) (Num 0) ranks))
        in if denominator = Num 0 then Num 1 else js_div numerator denominator)"

definition getBaseRank :: "jsnum \<Rightarrow> jsnum" where
  "getBaseRank normalizedScore =
     (let maxRank = Num 50000 in js_round (js_mul maxRank (js_sub (Num 1) normalizedScore)))"

definition calculatePredictedRank :: "history_entry list \<Rightarrow> jsnum \<Rightarrow> jsnum" where
  "calculatePredictedRank historicalData normalizedScore =
     (let historicalCorrelation = calculateHistoricalCorrelation historicalData;
          baseRank = getBaseRank normalizedScore
      in js_round (js_mul baseRank historicalCorrelation))"

definition calculateStandardError :: "history_entry list \<Rightarrow> jsnum" where
  "calculateStandardError historicalData =
     (let predictions = map (\<lambda>d.
            (rank d, calculatePredictedRank historicalData (normalizeScore historicalData d)))
            historicalData;
          errors = map (\<lambda>(actual, predicted). js_abs (js_sub actual predicted)) predictions;
          meanError = js_div (js_sum errors) (js_len errors);
          variance = js_div
            (foldl (\<lambda>sum e. js_add sum (js_pow2 (js_sub e meanError))) (Num 0) errors)
            (js_len errors)
      in js_sqrt variance)"

definition calculateConfidenceInterval :: "history_entry list \<Rightarrow> jsnum \<Rightarrow> interval" where
  "calculateConfidenceInterval historicalData predictedRank =
     (let standardError = calculateStandardError historicalData;
          zScore = Num (196 / 100);
          margin = js_mul zScore standardError
      in \<lparr> lower = js_max (Num 1) (js_round (js_sub predictedRank margin)),
           upper = js_round (js_add predictedRank margin) \<rparr>)"

definition calculateCollegeProbability :: "jsnum \<Rightarrow> jsnum \<Rightarrow> jsnum" where
  "calculateCollegeProbability predictedRank cutoff =
     (let buffer = js_mul cutoff (Num (1 / 10)) in
      if js_le predictedRank (js_sub cutoff buffer) then Num (9 / 10)
      else if js_le predictedRank cutoff then Num (7 / 10)
      else Num (3 / 10))"

definition collegeTiers :: "(jsnum \<times> string) list" where
  "collegeTiers =
     [(Num 1000, ''Tier 1 Medical Colleges''),
      (Num 5000, ''Tier 2 Medical Colleges''),
      (Num 10000, ''Tier 3 Medical Colleges'')]"

definition getPotentialColleges :: "jsnum \<Rightarrow> college list" where
  "getPotentialColleges predictedRank =
     map (\<lambda>(maxRank, tierName).
            \<lparr> name = tierName,
              probability = calculateCollegeProbability predictedRank maxRank,
              cutoffRange = \<lparr> range_min = js_sub maxRank (Num 1000), range_max = maxRank \<rparr> \<rparr>)
         (filter (\<lambda>(maxRank, tierName). js_le predictedRank maxRank) collegeTiers)"

definition calculatePredictionAccuracy :: "history_entry list \<Rightarrow> jsnum" where
  "calculatePredictionAccuracy historicalData =
     (if length historicalData < 2 then Num (7 / 10)
      else
        let predictions = map (\<lambda>d.
              (rank d, calculatePredictedRank historicalData (normalizeScore historicalData d)))
              historicalData;
            accuracies = map (\<lambda>(actual, predicted).
              js_sub (Num 1) (js_div (js_abs (js_sub actual predicted)) actual)) predictions
        in js_div (js_sum accuracies) (js_len accuracies))"

record prediction =
  predictedRank :: jsnum
  confidenceInterval :: interval
  normalizedScore :: jsnum
  potentialColleges :: "college list"
  predictionAccuracy :: jsnum

definition predictRank :: "history_entry list \<Rightarrow> 'a performance_scheme \<Rightarrow> prediction" where
  "predictRank historicalData p =
     (let ns = normalizeScore historicalData p;
          pr = calculatePredictedRank historicalData ns
      in \<lparr> predictedRank = pr,
           confidenceInterval = calculateConfidenceInterval historicalData pr,
           normalizedScore = ns,
           potentialColleges = getPotentialColleges pr,
           predictionAccuracy = calculatePredictionAccuracy historicalData \<rparr>)"

section \<open>JavaScript objects used as dictionaries\<close>

text \<open>
  An object literal \<open>{}\<close> keyed by topic is modelled by the list of its own properties
  in creation order. Three facts of the language are kept:
  \<^item> a read \<open>obj[key]\<close> of a name that \<open>Object.prototype\<close> defines finds the inherited
    member, which is truthy, so \<open>if (!obj[key])\<close> does not create an own property;
  \<^item> assigning to an existing own property keeps its position, a new one is appended;
  \<^item> \<open>Object.entries\<close> lists the array-index keys first, in ascending numeric order,
    and then the other keys in creation order.
\<close>

definition inherited_key :: "string \<Rightarrow> bool" where
  "inherited_key k = (k \<in> set
     [''constructor'', ''__proto__'', ''hasOwnProperty'', ''isPrototypeOf'',
      ''propertyIsEnumerable'', ''toLocaleString'', ''toString'', ''valueOf'',
      ''__defineGetter__'', ''__defineSetter__'', ''__lookupGetter__'',
      ''__lookupSetter__''])"

definition is_digit :: "char \<Rightarrow> bool" where
  "is_digit c = (c \<in> set ''0123456789'')"

definition digits_val :: "string \<Rightarrow> nat" where
  "digits_val s = foldl (\<lambda>n c. 10 * n + (of_char c - 48)) 0 s"

definition array_index :: "string \<Rightarrow> nat option" where
  "array_index s =
     (if s \<noteq> [] \<and> list_all is_digit s \<and> (s = ''0'' \<or> hd s \<noteq> CHR ''0'')
         \<and> digits_val s < 4294967295
      then Some (digits_val s) else None)"

definition object_entries :: "(string \<times> 'v) list \<Rightarrow> (string \<times> 'v) list" where
  "object_entries obj =
     sort_key (\<lambda>(k, v). the (array_index k)) (filter (\<lambda>(k, v). array_index k \<noteq> None) obj)
     @ filter (\<lambda>(k, v). array_index k = None) obj"

text \<open>\<open>Array.prototype.slice(start, end)\<close> for integer arguments.\<close>

definition js_slice :: "'a list \<Rightarrow> int \<Rightarrow> int \<Rightarrow> 'a list" where
  "js_slice xs start end =
     (let len = int (length xs);
          k = (if start < 0 then max (len + start) 0 else min start len);
          final = (if end < 0 then max (len + end) 0 else min end len)
      in take (nat (final - k)) (drop (nat k) xs))"

section \<open>QuizAnalyzer.js\<close>

text \<open>
  The analyzer holds the current quiz (its questions), the answers of the current
  submission (question id to chosen option) and the history. The per-topic counters
  \<open>total\<close> and \<open>correct\<close> start at 0 and are only incremented, so they are naturals.
\<close>

record counters =
  total :: nat
  correct :: nat

record topic_accuracy =
  ta_accuracy :: jsnum
  totalQuestions :: nat
  correctAnswers :: nat

definition isCorrectAnswer :: "question list \<Rightarrow> (string \<rightharpoonup> string) \<Rightarrow> string \<Rightarrow> bool" where
  "isCorrectAnswer currentQuiz answers questionId =
     (case find (\<lambda>q. q_id q = questionId) currentQuiz of
        None \<Rightarrow> False
      | Some q \<Rightarrow> answers questionId = Some (correctOption q))"

definition count_question ::
  "question list \<Rightarrow> (string \<rightharpoonup> string) \<Rightarrow> (string \<times> counters) list \<Rightarrow> question
   \<Rightarrow> (string \<times> counters) list" where
  "count_question currentQuiz answers topicStats q =
     (if inherited_key (q_topic q) then topicStats
      else
        let st = (case map_of topicStats (q_topic q) of
                    None \<Rightarrow> \<lparr> total = 0, correct = 0 \<rparr> | Some st \<Rightarrow> st);
            st1 = st \<lparr> total := total st + 1 \<rparr>;
            st2 = (if isCorrectAnswer currentQuiz answers (q_id q)
                   then st1 \<lparr> correct := correct st1 + 1 \<rparr> else st1)
        in AList.update (q_topic q) st2 topicStats)"

definition calculateTopicPerformance ::
  "question list \<Rightarrow> (string \<rightharpoonup> string) \<Rightarrow> (string \<times> topic_accuracy) list" where
  "calculateTopicPerformance currentQuiz answers =
     (let topicStats = foldl (count_question currentQuiz answers) [] currentQuiz in
      foldl (\<lambda>result (topic, stats).
          AList.update topic
            \<lparr> ta_accuracy = js_div (Num (of_nat (correct stats))) (Num (of_nat (total stats))),
              totalQuestions = total stats,
              correctAnswers = correct stats \<rparr> result)
        [] (object_entries topicStats))"

definition calculateTopicImprovement ::
  "question list \<Rightarrow> (string \<rightharpoonup> string) \<Rightarrow> history_entry list \<Rightarrow> string \<Rightarrow> jsnum" where
  "calculateTopicImprovement currentQuiz answers history topic =
     (let recentQuizzes = js_slice history (- 3) (int (length history));
          topicScores = map (\<lambda>quiz.
            let topicQuestions = filter (\<lambda>q. q_topic q = topic) (questions quiz);
                correct = length (filter (\<lambda>q. isCorrectAnswer currentQuiz answers (q_id q))
                                    topicQuestions)
            in js_div (Num (of_nat correct)) (js_len topicQuestions)) recentQuizzes
      in if length topicScores < 2 then Num 0
         else js_sub (last topicScores) (hd topicScores))"

definition calculateImprovementRate :: "history_entry list \<Rightarrow> jsnum" where
  "calculateImprovementRate history =
     (let scores = map score history in
      if length scores < 2 then Num 0
      else js_div (js_sub (last scores) (hd scores)) (hd scores))"

definition calculateConsistencyScore :: "history_entry list \<Rightarrow> jsnum" where
  "calculateConsistencyScore history =
     (let scores = map score history;
          mean = js_div (js_sum scores) (js_len scores);
          variance = js_div
            (foldl (\<lambda>a b. js_add a (js_pow2 (js_sub b mean))) (Num 0) scores)
            (js_len scores)
      in js_sub (Num 1) (js_div (js_sqrt variance) mean))"

section \<open>The server: analyzePerformance, predictRank and the analysis route\<close>

text \<open>
  The submission object. The five fields that \<open>validateSubmissionData\<close> tests with
  \<open>hasOwnProperty\<close> are optional; a numeric field holds the number that the code reads
  from it (for \<open>accuracy\<close>, \<open>speed\<close> and \<open>final_score\<close> the result of \<open>parseFloat\<close>,
  which is \<open>NaN\<close> for a text that does not start with a number).
\<close>

record submission =
  quiz_id :: "nat option"
  submitted_at :: "string option"
  correct_answers :: "jsnum option"
  total_questions :: "jsnum option"
  sub_speed :: "jsnum option"
  sub_accuracy :: jsnum
  sub_final_score :: jsnum
  mistakes_corrected :: jsnum
  initial_mistake_count :: jsnum

text \<open>Reading a property that may be absent: \<open>undefined\<close> converts to \<open>NaN\<close>.\<close>

definition to_number :: "jsnum option \<Rightarrow> jsnum" where
  "to_number v = (case v of None \<Rightarrow> NaN | Some a \<Rightarrow> a)"

text \<open>A historical attempt as \<open>analyzePerformance\<close> and \<open>predictRank\<close> read it.\<close>

record attempt =
  quiz_topic :: string
  a_accuracy :: jsnum
  a_speed :: jsnum
  a_final_score :: jsnum
  incorrect_answers :: jsnum
  a_total_questions :: jsnum
  a_submitted_at :: string

record topic_stats =
  attempts :: nat
  totalAccuracy :: jsnum
  averageSpeed :: jsnum
  mistakeRate :: jsnum

record final_stats = topic_stats +
  averageAccuracy :: jsnum
  averageMistakeRate :: jsnum

record weak_area =
  wa_topic :: string
  wa_averageAccuracy :: jsnum
  wa_mistakeRate :: jsnum

record trend_point =
  tp_date :: string
  tp_value :: jsnum
  tp_topic :: string

record current_performance =
  cp_accuracy :: jsnum
  cp_speed :: jsnum
  mistakesImprovement :: jsnum

record analysis =
  currentPerformance :: current_performance
  topicPerformance :: "(string \<times> final_stats) list"
  weakAreas :: "weak_area list"
  trends_accuracy :: "trend_point list"
  trends_speed :: "trend_point list"

text \<open>The body of \<open>history.forEach\<close> as far as it updates \<open>topicPerformance\<close>.\<close>

definition accumulate :: "(string \<times> topic_stats) list \<Rightarrow> attempt \<Rightarrow> (string \<times> topic_stats) list" where
  "accumulate tp a =
     (let topic = quiz_topic a in
      if inherited_key topic then tp
      else
        let st = (case map_of tp topic of
                    None \<Rightarrow> \<lparr> attempts = 0, totalAccuracy = Num 0, averageSpeed = Num 0,
                              mistakeRate = Num 0 \<rparr>
                  | Some st \<Rightarrow> st)
        in AList.update topic
             \<lparr> attempts = attempts st + 1,
               totalAccuracy = js_add (totalAccuracy st) (a_accuracy a),
               averageSpeed = js_add (averageSpeed st) (a_speed a),
               mistakeRate = js_add (mistakeRate st)
                 (js_div (incorrect_answers a) (a_total_questions a)) \<rparr> tp)"

text \<open>The second loop adds the averages to each entry and overwrites \<open>averageSpeed\<close>.\<close>

definition finalize :: "topic_stats \<Rightarrow> final_stats" where
  "finalize stats =
     \<lparr> attempts = attempts stats,
       totalAccuracy = totalAccuracy stats,
       averageSpeed = js_div (averageSpeed stats) (Num (of_nat (attempts stats))),
       mistakeRate = mistakeRate stats,
       averageAccuracy = js_div (totalAccuracy stats) (Num (of_nat (attempts stats))),
       averageMistakeRate = js_div (mistakeRate stats) (Num (of_nat (attempts stats))) \<rparr>"

definition is_weak :: "final_stats \<Rightarrow> bool" where
  "is_weak stats =
     (js_lt (averageAccuracy stats) (Num 70) \<or> js_gt (averageMistakeRate stats) (Num (3 / 10)))"

definition analyzePerformance :: "submission \<Rightarrow> attempt list \<Rightarrow> analysis" where
  "analyzePerformance sub history =
     (let currentAccuracy = sub_accuracy sub;
          currentSpeed = to_number (sub_speed sub);
          improvement = js_div (mistakes_corrected sub) (initial_mistake_count sub);
          accumulated = foldl accumulate [] history;
          accuracyTrend = map (\<lambda>a. \<lparr> tp_date = a_submitted_at a, tp_value = a_accuracy a,
                                       tp_topic = quiz_topic a \<rparr>) history;
          speedTrend = map (\<lambda>a. \<lparr> tp_date = a_submitted_at a, tp_value = a_speed a,
                                    tp_topic = quiz_topic a \<rparr>) history;
          finalized = map (\<lambda>(topic, stats). (topic, finalize stats)) accumulated;
          weak = map (\<lambda>(topic, stats).
                    \<lparr> wa_topic = topic, wa_averageAccuracy = averageAccuracy stats,
                      wa_mistakeRate = averageMistakeRate stats \<rparr>)
                   (filter (\<lambda>(topic, stats). is_weak stats) (object_entries finalized))
      in \<lparr> currentPerformance =
             \<lparr> cp_accuracy = currentAccuracy, cp_speed = currentSpeed,
               mistakesImprovement = improvement \<rparr>,
           topicPerformance = finalized,
           weakAreas = weak,
           trends_accuracy = accuracyTrend,
           trends_speed = speedTrend \<rparr>)"

text \<open>The server's own standard deviation (sample, \<open>n - 1\<close>) and rank prediction.\<close>

definition calculateStandardDeviation :: "jsnum list \<Rightarrow> jsnum" where
  "calculateStandardDeviation vals =
     (let n = length vals in
      if n < 2 then Num 0
      else
        let mean = js_div (js_sum vals) (Num (of_nat n));
            variance = js_div
              (foldl (\<lambda>a b. js_add a (js_pow2 (js_sub b mean))) (Num 0) vals)
              (Num (of_nat n - 1))
        in js_sqrt variance)"

record server_metrics =
  weightedScore :: jsnum
  consistency :: jsnum
  averageScore :: jsnum

record server_prediction =
  sp_predictedRank :: jsnum
  sp_confidenceInterval :: interval
  collegePossibilities :: "string list"
  metrics :: server_metrics

definition server_predictRank :: "submission \<Rightarrow> attempt list \<Rightarrow> server_prediction" where
  "server_predictRank sub history =
     (let currentScore = sub_final_score sub;
          accuracyWeight = Num (4 / 10);
          speedWeight = Num (3 / 10);
          consistencyWeight = Num (3 / 10);
          historicalScores = map a_final_score history;
          avg = js_div (js_sum historicalScores) (js_len historicalScores);
          standardDeviation = calculateStandardDeviation historicalScores;
          cons = js_sub (Num 1)
            (js_div standardDeviation (if truthy avg then avg else Num 1));
          weighted = js_add (js_add
            (js_mul currentScore accuracyWeight)
            (js_mul (to_number (sub_speed sub)) speedWeight))
            (js_mul cons consistencyWeight);
          pr = js_round (js_mul (Num 2000) (js_sub (Num 1) (js_div weighted (Num 100))))
      in \<lparr> sp_predictedRank = pr,
           sp_confidenceInterval =
             \<lparr> lower = js_max (Num 1) (js_sub pr (Num 200)), upper = js_add pr (Num 200) \<rparr>,
           collegePossibilities =
             (if js_le pr (Num 1000) then [''Top Medical Colleges - High Chance'']
              else if js_le pr (Num 2000) then [''Top Medical Colleges - Moderate Chance'']
              else if js_le pr (Num 5000) then [''Good Medical Colleges - High Chance'']
              else [''Moderate Medical Colleges - Moderate Chance'']),
           metrics = \<lparr> weightedScore = weighted, consistency = cons, averageScore = avg \<rparr> \<rparr>)"

text \<open>
  The route \<open>GET /api/quiz/analysis\<close>. What \<open>loadData\<close> delivers is the input: an error
  message when loading failed, else the submission and the history as fetched.
\<close>

datatype error = Error string

datatype response = Json analysis | Status500 string string

definition api_quiz_analysis :: "error + submission \<times> attempt list \<Rightarrow> response" where
  "api_quiz_analysis loaded =
     (case loaded of
        Inl (Error message) \<Rightarrow> Status500 ''Analysis Failed'' message
      | Inr (sub, history) \<Rightarrow> Json (analyzePerformance sub history))"

section \<open>Data processing utilities\<close>

definition calculateMean :: "jsnum list \<Rightarrow> jsnum" where
  "calculateMean vals = (if vals = [] then Num 0 else js_div (js_sum vals) (js_len vals))"

definition calculateMovingAverage :: "jsnum list \<Rightarrow> int \<Rightarrow> jsnum list" where
  "calculateMovingAverage data windowSize =
     map (\<lambda>i. calculateMean (js_slice data (max 0 (int i - windowSize + 1)) (int i + 1)))
       [0 ..< length data]"

text \<open>
  A submission as \<open>analyzeImprovementTrends\<close> reads it: \<open>h_date\<close> is the time value of
  \<open>new Date(sub.submitted_at)\<close> in milliseconds (a valid date), and \<open>h_topic\<close> is
  \<open>sub.quiz.topic\<close>, absent when the submission has no quiz or the quiz no topic.
\<close>

record hist_submission =
  h_date :: int
  h_correct_answers :: jsnum
  h_total_questions :: jsnum
  h_speed :: jsnum
  h_topic :: "string option"

record point =
  pt_date :: int
  pt_value :: jsnum

record topic_point =
  tw_date :: int
  tw_accuracy :: jsnum
  tw_speed :: jsnum

record smoothed_point =
  sm_date :: int
  sm_value :: jsnum
  sm_raw :: jsnum

record trends =
  tr_accuracy :: "smoothed_point list"
  tr_speed :: "point list"
  topicWise :: "(string \<times> topic_point list) list"

definition sub_accuracy_pct :: "hist_submission \<Rightarrow> jsnum" where
  "sub_accuracy_pct s = js_mul (js_div (h_correct_answers s) (h_total_questions s)) (Num 100)"

text \<open>
  The topic-wise part of the loop body. For a topic named like a member of
  \<open>Object.prototype\<close> the lookup finds that member, which has no \<open>push\<close>, and the call
  throws a \<open>TypeError\<close>; an empty topic is falsy and skipped.
\<close>

definition push_topic ::
  "(string \<times> topic_point list) list \<Rightarrow> hist_submission \<Rightarrow> error + (string \<times> topic_point list) list" where
  "push_topic tw s =
     (case h_topic s of
        None \<Rightarrow> Inr tw
      | Some topic \<Rightarrow>
          if topic = [] then Inr tw
          else if inherited_key topic
          then Inl (Error ''trends.topicWise[topic].push is not a function'')
          else
            let existing = (case map_of tw topic of None \<Rightarrow> [] | Some ps \<Rightarrow> ps)
            in Inr (AList.update topic
                 (existing @ [\<lparr> tw_date = h_date s, tw_accuracy = sub_accuracy_pct s,
                                tw_speed = h_speed s \<rparr>]) tw))"

fun push_topics ::
  "(string \<times> topic_point list) list \<Rightarrow> hist_submission list \<Rightarrow> error + (string \<times> topic_point list) list" where
  "push_topics tw [] = Inr tw"
| "push_topics tw (s # ss) =
     (case push_topic tw s of Inl e \<Rightarrow> Inl e | Inr tw' \<Rightarrow> push_topics tw' ss)"

definition analyzeImprovementTrends :: "hist_submission list \<Rightarrow> error + trends" where
  "analyzeImprovementTrends submissions =
     (let sortedSubs = sort_key h_date submissions;
          accuracy_raw = map (\<lambda>s. \<lparr> pt_date = h_date s, pt_value = sub_accuracy_pct s \<rparr>)
                           sortedSubs;
          speed_raw = map (\<lambda>s. \<lparr> pt_date = h_date s, pt_value = h_speed s \<rparr>) sortedSubs
      in case push_topics [] sortedSubs of
           Inl e \<Rightarrow> Inl e
         | Inr tw \<Rightarrow>
             let averaged = calculateMovingAverage (map pt_value accuracy_raw) 3
             in Inr \<lparr> tr_accuracy =
                        map (\<lambda>i. \<lparr> sm_date = pt_date (accuracy_raw ! i),
                                   sm_value = averaged ! i,
                                   sm_raw = pt_value (accuracy_raw ! i) \<rparr>)
                          [0 ..< length averaged],
                      tr_speed = speed_raw,
                      topicWise = tw \<rparr>)"

text \<open>\<open>missingFields.join(', ')\<close> and the validation of a submission.\<close>

fun join :: "string list \<Rightarrow> string" where
  "join [] = []"
| "join [x] = x"
| "join (x # y # ys) = x @ '', '' @ join (y # ys)"

definition missingFields :: "submission \<Rightarrow> string list" where
  "missingFields d =
     map fst (filter (\<lambda>(field, present). \<not> present)
       [(''quiz_id'', quiz_id d \<noteq> None),
        (''submitted_at'', submitted_at d \<noteq> None),
        (''correct_answers'', correct_answers d \<noteq> None),
        (''total_questions'', total_questions d \<noteq> None),
        (''speed'', sub_speed d \<noteq> None)])"

definition validateSubmissionData :: "submission \<Rightarrow> error + bool" where
  "validateSubmissionData d =
     (if length (missingFields d) > 0
      then Inl (Error (''Missing required fields: '' @ join (missingFields d)))
      else if js_gt (to_number (correct_answers d)) (to_number (total_questions d))
      then Inl (Error ''Correct answers cannot exceed total questions'')
      else if js_le (to_number (sub_speed d)) (Num 0)
      then Inl (Error ''Speed must be a positive number'')
      else Inr True)"

section \<open>Example inputs\<close>

text \<open>The specification's round-trip series: scores rise as ranks fall.\<close>

definition spec_history :: "history_entry list" where
  "spec_history =
     [\<lparr> accuracy = Num 50, speed = Num 50, score = Num 50, rank = Num 4000, questions = [] \<rparr>,
      \<lparr> accuracy = Num 70, speed = Num 50, score = Num 70, rank = Num 2500, questions = [] \<rparr>,
      \<lparr> accuracy = Num 90, speed = Num 50, score = Num 90, rank = Num 1000, questions = [] \<rparr>]"

definition zero_scores :: "history_entry list" where
  "zero_scores =
     [\<lparr> accuracy = Num 0, speed = Num 40, score = Num 0, rank = Num 9000, questions = [] \<rparr>,
      \<lparr> accuracy = Num 0, speed = Num 45, score = Num 0, rank = Num 9500, questions = [] \<rparr>]"

definition one_attempt :: "history_entry list" where
  "one_attempt =
     [\<lparr> accuracy = Num 1, speed = Num (1 / 2), score = Num 60, rank = Num 12000,
        questions = [] \<rparr>]"

definition low_performance :: performance where
  "low_performance = \<lparr> accuracy = Num 1, speed = Num 1 \<rparr>"

definition readme_performance :: performance where
  "readme_performance = \<lparr> accuracy = Num 80, speed = Num 100 \<rparr>"

definition sub_no_mistakes :: submission where
  "sub_no_mistakes =
     \<lparr> quiz_id = Some 43, submitted_at = Some ''2025-01-17T15:30:18.027+05:30'',
       correct_answers = Some (Num 10), total_questions = Some (Num 10),
       sub_speed = Some (Num 100), sub_accuracy = Num 100, sub_final_score = Num 40,
       mistakes_corrected = Num 3, initial_mistake_count = Num 0 \<rparr>"

definition sub_flawless :: submission where
  "sub_flawless =
     \<lparr> quiz_id = Some 43, submitted_at = Some ''2025-01-17T15:30:18.027+05:30'',
       correct_answers = Some (Num 10), total_questions = Some (Num 10),
       sub_speed = Some (Num 100), sub_accuracy = Num 100, sub_final_score = Num 40,
       mistakes_corrected = Num 0, initial_mistake_count = Num 0 \<rparr>"

definition sub_over :: submission where
  "sub_over =
     \<lparr> quiz_id = Some 43, submitted_at = Some ''2025-01-17T15:30:18.027+05:30'',
       correct_answers = Some (Num 101), total_questions = Some (Num 100),
       sub_speed = Some (Num 100), sub_accuracy = Num 80, sub_final_score = Num 40,
       mistakes_corrected = Num 3, initial_mistake_count = Num 4 \<rparr>"

definition two_attempts :: "history_entry list" where
  "two_attempts =
     [\<lparr> accuracy = Num 1, speed = Num 0, score = Num 50, rank = Num 3000, questions = [] \<rparr>,
      \<lparr> accuracy = Num (1 / 2), speed = Num 0, score = Num 150, rank = Num 1000,
        questions = [] \<rparr>]"

definition mid_performance :: performance where
  "mid_performance = \<lparr> accuracy = Num (3 / 2), speed = Num 1 \<rparr>"

definition strong_performance :: performance where
  "strong_performance = \<lparr> accuracy = Num 90, speed = Num 95 \<rparr>"

text \<open>An attempt whose outcome is not known yet: the record has no rank.\<close>

definition unranked_attempt :: "history_entry list" where
  "unranked_attempt =
     [\<lparr> accuracy = Num 1, speed = Num (1 / 2), score = Num 60, rank = NaN,
        questions = [] \<rparr>]"

definition sample_history :: "attempt list" where
  "sample_history =
     [\<lparr> quiz_topic = ''Biology'', a_accuracy = Num 60, a_speed = Num 100,
        a_final_score = Num 30, incorrect_answers = Num 4, a_total_questions = Num 10,
        a_submitted_at = ''2025-01-10'' \<rparr>,
      \<lparr> quiz_topic = ''Chemistry'', a_accuracy = Num 50, a_speed = Num 90,
        a_final_score = Num 20, incorrect_answers = Num 5, a_total_questions = Num 10,
        a_submitted_at = ''2025-01-11'' \<rparr>,
      \<lparr> quiz_topic = ''Physics'', a_accuracy = Num 90, a_speed = Num 80,
        a_final_score = Num 36, incorrect_answers = Num 1, a_total_questions = Num 10,
        a_submitted_at = ''2025-01-12'' \<rparr>,
      \<lparr> quiz_topic = ''Biology'', a_accuracy = Num 70, a_speed = Num 100,
        a_final_score = Num 32, incorrect_answers = Num 3, a_total_questions = Num 10,
        a_submitted_at = ''2025-01-13'' \<rparr>]"

definition two_topic_history :: "attempt list" where
  "two_topic_history =
     [\<lparr> quiz_topic = ''Biology'', a_accuracy = Num 60, a_speed = Num 100,
        a_final_score = Num 30, incorrect_answers = Num 4, a_total_questions = Num 10,
        a_submitted_at = ''2025-01-10'' \<rparr>,
      \<lparr> quiz_topic = ''Chemistry'', a_accuracy = Num 50, a_speed = Num 90,
        a_final_score = Num 20, incorrect_answers = Num 5, a_total_questions = Num 10,
        a_submitted_at = ''2025-01-11'' \<rparr>]"

definition sample_quiz :: "question list" where
  "sample_quiz =
     [\<lparr> q_id = ''q1'', q_topic = ''Biology'', correctOption = ''a'' \<rparr>,
      \<lparr> q_id = ''q2'', q_topic = ''Chemistry'', correctOption = ''b'' \<rparr>,
      \<lparr> q_id = ''q3'', q_topic = ''Biology'', correctOption = ''c'' \<rparr>]"

definition sample_answers :: "string \<rightharpoonup> string" where
  "sample_answers = [''q1'' \<mapsto> ''a'', ''q2'' \<mapsto> ''d'', ''q3'' \<mapsto> ''c'']"

definition sample_series :: "jsnum list" where
  "sample_series = [Num 10, Num 20, Num 60, Num 30]"

definition trend_subs :: "hist_submission list" where
  "trend_subs =
     [\<lparr> h_date = 300, h_correct_answers = Num 9, h_total_questions = Num 10,
        h_speed = Num 95, h_topic = Some ''Biology'' \<rparr>,
      \<lparr> h_date = 100, h_correct_answers = Num 6, h_total_questions = Num 10,
        h_speed = Num 80, h_topic = Some ''Chemistry'' \<rparr>,
      \<lparr> h_date = 200, h_correct_answers = Num 3, h_total_questions = Num 10,
        h_speed = Num 90, h_topic = None \<rparr>]"

section \<open>Arithmetic of the number model\<close>

lemma js_sqrt_Num: "js_sqrt v = Num s \<Longrightarrow> 0 \<le> s"
  by (cases v) (auto split: if_splits)

lemma js_round_Num: "js_round v = Num r \<Longrightarrow> \<exists>k. r = of_int k"
  by (cases v) auto

lemma js_max_Num: "js_max (Num a) (Num b) = Num (max a b)"
  by (auto simp: js_max_def max_def)

lemma sqrt_3600000000: "sqrt 3600000000 = 60000"
proof -
  have "(3600000000::real) = 60000\<^sup>2" by simp
  then show ?thesis by (simp only: real_sqrt_abs)
qed

lemma interval_around_integer:
  fixes m :: real and k :: int
  assumes "0 \<le> m"
  shows "real_of_int \<lfloor>of_int k - m + 1 / 2\<rfloor> \<le> of_int k"
    and "of_int k \<le> real_of_int \<lfloor>of_int k + m + 1 / 2\<rfloor>"
proof -
  have "\<lfloor>of_int k - m + 1 / 2\<rfloor> \<le> k" using assms by (simp add: floor_le_iff)
  then show "real_of_int \<lfloor>of_int k - m + 1 / 2\<rfloor> \<le> of_int k" by simp
  have "k \<le> \<lfloor>of_int k + m + 1 / 2\<rfloor>" using assms by (simp add: le_floor_iff)
  then show "of_int k \<le> real_of_int \<lfloor>of_int k + m + 1 / 2\<rfloor>" by simp
qed

section \<open>Current performance\<close>

text \<open>
  C3 (as amended). \<open>currentPerformance\<close> is \<open>{accuracy, speed, mistakesImprovement}\<close> with
  \<open>mistakesImprovement = mistakes_corrected / initial_mistake_count\<close> computed by the
  plain division, whatever the operands. For finite operands it is the quotient when the
  count is not 0; when the count is 0 it is \<open>NaN\<close> for 0 corrected mistakes and an
  infinity otherwise. No guard replaces these values.
\<close>

theorem mistakes_improvement_is_plain_division:
  "currentPerformance (analyzePerformance sub history) =
     \<lparr> cp_accuracy = sub_accuracy sub, cp_speed = to_number (sub_speed sub),
       mistakesImprovement = js_div (mistakes_corrected sub) (initial_mistake_count sub) \<rparr>
   \<and> (mistakes_corrected sub = Num m \<and> initial_mistake_count sub = Num c \<longrightarrow>
        (c \<noteq> 0 \<longrightarrow>
           mistakesImprovement (currentPerformance (analyzePerformance sub history)) =
             Num (m / c))
        \<and> (c = 0 \<and> m = 0 \<longrightarrow>
           mistakesImprovement (currentPerformance (analyzePerformance sub history)) = NaN)
        \<and> (c = 0 \<and> m \<noteq> 0 \<longrightarrow>
           mistakesImprovement (currentPerformance (analyzePerformance sub history)) = PosInf
           \<or> mistakesImprovement (currentPerformance (analyzePerformance sub history)) =
               NegInf))"
  by (simp add: analyzePerformance_def Let_def)

text \<open>
  The specification's scenario, 3 of 4 mistakes corrected, gives 0.75; no mistake to
  correct and none corrected gives \<open>NaN\<close>.
\<close>

theorem mistakes_improvement_is_plain_division_witness:
  "mistakes_corrected sub_over = Num 3 \<and> initial_mistake_count sub_over = Num 4 \<and>
   currentPerformance (analyzePerformance sub_over []) =
     \<lparr> cp_accuracy = Num 80, cp_speed = Num 100, mistakesImprovement = Num (3 / 4) \<rparr> \<and>
   mistakes_corrected sub_flawless = Num 0 \<and> initial_mistake_count sub_flawless = Num 0 \<and>
   currentPerformance (analyzePerformance sub_flawless []) =
     \<lparr> cp_accuracy = Num 100, cp_speed = Num 100, mistakesImprovement = NaN \<rparr>"
  using mistakes_improvement_is_plain_division [of sub_over "[]" 3 4]
    mistakes_improvement_is_plain_division [of sub_flawless "[]" 0 0]
  by (simp add: sub_over_def sub_flawless_def to_number_def)

text \<open>
  With \<open>initial_mistake_count = 0\<close> the output holds \<open>NaN\<close> for 0 / 0 and \<open>Infinity\<close>
  for 3 / 0.
\<close>

theorem mistakes_improvement_unguarded:
  "initial_mistake_count sub_flawless = Num 0 \<and>
   mistakesImprovement (currentPerformance (analyzePerformance sub_flawless [])) = NaN \<and>
   initial_mistake_count sub_no_mistakes = Num 0 \<and>
   mistakesImprovement (currentPerformance (analyzePerformance sub_no_mistakes [])) = PosInf"
  by (simp add: analyzePerformance_def sub_no_mistakes_def sub_flawless_def Let_def)

section \<open>Validation\<close>

lemma validate_rejects_excess:
  assumes "quiz_id d \<noteq> None" "submitted_at d \<noteq> None" "sub_speed d \<noteq> None"
    and "correct_answers d = Some c" "total_questions d = Some t" "js_gt c t"
  shows "validateSubmissionData d = Inl (Error ''Correct answers cannot exceed total questions'')"
  using assms by (simp add: validateSubmissionData_def missingFields_def to_number_def)

text \<open>
  C8. A submission with \<open>correct_answers = 101\<close> and \<open>total_questions = 100\<close> is to be
  rejected before any metric is computed. \<open>validateSubmissionData\<close> rejects it, but the
  analysis route never calls the validator: it answers with a computed analysis.
\<close>

theorem analysis_route_accepts_excess_correct_answers:
  "validateSubmissionData sub_over =
     Inl (Error ''Correct answers cannot exceed total questions'') \<and>
   api_quiz_analysis (Inr (sub_over, [])) =
     Json \<lparr> currentPerformance =
              \<lparr> cp_accuracy = Num 80, cp_speed = Num 100, mistakesImprovement = Num (3 / 4) \<rparr>,
            topicPerformance = [], weakAreas = [], trends_accuracy = [], trends_speed = [] \<rparr>"
  by (simp add: validateSubmissionData_def missingFields_def to_number_def sub_over_def
      js_gt_def api_quiz_analysis_def analyzePerformance_def Let_def object_entries_def)

section \<open>Consistency\<close>

text \<open>
  C6. The consistency of a series of identical scores is to be exactly 1, and 1 for
  fewer than two data points. For two attempts that both scored 0 both implementations
  divide 0 by the mean 0 and return \<open>NaN\<close>, and the analyzer's version, which has no
  length guard, returns \<open>NaN\<close> for the empty history.
\<close>

theorem consistency_of_zero_scores_is_nan:
  "calculateConsistencyScore zero_scores = NaN \<and> calculateConsistency zero_scores = NaN \<and>
   calculateConsistencyScore [] = NaN"
  by (simp add: calculateConsistencyScore_def calculateConsistency_def zero_scores_def Let_def
      js_sum_def js_len_def js_sub_def)

lemma map_constant: "(\<forall>x \<in> set xs. f x = v) \<Longrightarrow> map f xs = replicate (length xs) v"
  by (induction xs) auto

lemma js_sum_replicate:
  "foldl js_add (Num a) (replicate n (Num c)) = Num (a + of_nat n * c)"
  by (induction n arbitrary: a) (simp_all add: algebra_simps)

lemma squares_replicate:
  "foldl (\<lambda>a b. js_add a (js_pow2 (js_sub b (Num c)))) (Num 0) (replicate n (Num c)) = Num 0"
  by (induction n) (simp_all add: js_sub_def)

text \<open>
  Away from the two defects the claim holds: identical scores other than 0 give exactly
  1 in both implementations, and the predictor returns 1 below two data points.
\<close>

lemma consistency_identical_nonzero:
  assumes same: "\<forall>d \<in> set h. score d = Num c" and c: "c \<noteq> 0" and h: "h \<noteq> []"
  shows "calculateConsistencyScore h = Num 1" and "calculateConsistency h = Num 1"
proof -
  have scores: "map score h = replicate (length h) (Num c)"
    using same by (rule map_constant)
  have n: "real (length h) \<noteq> 0" using h by simp
  have mean: "js_div (js_sum (map score h)) (js_len (map score h)) = Num c"
    using n by (simp add: scores js_sum_def js_len_def js_sum_replicate)
  have spread: "js_sub (Num 1) (js_div (js_sqrt (js_div (Num 0) (Num (real (length h)))))
      (Num c)) = Num 1"
    using n c by (simp add: js_sub_def)
  show "calculateConsistencyScore h = Num 1"
    unfolding calculateConsistencyScore_def Let_def mean
    by (simp only: scores squares_replicate js_len_def length_replicate spread)
  have "\<not> length h < 2 \<Longrightarrow> calculateConsistency h = Num 1"
    unfolding calculateConsistency_def Let_def mean
    by (simp only: scores squares_replicate js_len_def length_replicate spread length_map
        if_False)
  then show "calculateConsistency h = Num 1"
    by (cases "length h < 2") (simp_all add: calculateConsistency_def)
qed

lemma consistency_short_history: "length h < 2 \<Longrightarrow> calculateConsistency h = Num 1"
  by (simp add: calculateConsistency_def)

text \<open>
  The server's \<open>predictRank\<close> computes the same score with both guards in place
  (\<open>calculateStandardDeviation\<close> returns 0 below two values, and the mean is replaced by 1
  when it is 0 or \<open>NaN\<close>): identical final scores give 1 whatever their value and
  however many they are.
\<close>

lemma server_consistency_identical:
  assumes same: "\<forall>a \<in> set h. a_final_score a = Num c"
  shows "consistency (metrics (server_predictRank sub h)) = Num 1"
proof -
  have scores: "map a_final_score h = replicate (length h) (Num c)"
    using same by (rule map_constant)
  have sd: "calculateStandardDeviation (replicate (length h) (Num c)) = Num 0"
  proof (cases "length h < 2")
    case True
    then show ?thesis by (simp add: calculateStandardDeviation_def)
  next
    case False
    then have "real (length h) \<noteq> 0" and "real (length h) - 1 \<noteq> 0" by auto
    then show ?thesis using False
      by (simp add: calculateStandardDeviation_def Let_def js_sum_def js_sum_replicate
          squares_replicate)
  qed
  have guard: "js_sub (Num 1) (js_div (Num 0) (if truthy v then v else Num 1)) = Num 1"
    if "v = Num c \<or> v = NaN" for v
    using that by (cases "c = 0") (auto simp: truthy_def js_sub_def)
  have "js_div (js_sum (replicate (length h) (Num c))) (js_len (replicate (length h) (Num c)))
      = Num c \<or> js_div (js_sum (replicate (length h) (Num c))) (js_len (replicate (length h) (Num c))) = NaN"
    by (simp add: js_sum_def js_len_def js_sum_replicate)
  from guard [OF this] show ?thesis
    by (simp add: server_predictRank_def Let_def scores sd)
qed

section \<open>Predicted rank\<close>

lemma spec_history_correlation: "calculateHistoricalCorrelation spec_history = Num (- 1)"
  by (simp add: calculateHistoricalCorrelation_def spec_history_def Let_def js_sum_def
      js_len_def js_sub_def sqrt_3600000000)

text \<open>
  C4 (as amended). The predicted rank is \<open>round(baseRank(normalizedScore) * c)\<close> where
  \<open>c\<close> is the historical correlation exactly as computed, of either sign: a negative
  correlation is not replaced by 1, and no floor at 1 is applied to the product.
\<close>

theorem predicted_rank_formula:
  assumes "calculateHistoricalCorrelation h = Num c"
  shows "calculatePredictedRank h (Num n) =
           Num (of_int \<lfloor>of_int \<lfloor>50000 * (1 - n) + 1 / 2\<rfloor> * c + 1 / 2\<rfloor>)"
  using assms by (simp add: calculatePredictedRank_def getBaseRank_def Let_def js_sub_def)

theorem predicted_rank_formula_witness:
  "calculateHistoricalCorrelation spec_history = Num (- 1) \<and>
   calculatePredictedRank spec_history (Num (1 / 2)) = Num (- 25000)"
  using predicted_rank_formula [OF spec_history_correlation, of "1 / 2"]
    spec_history_correlation by simp

text \<open>
  On the specification's series the correlation is negative; with the neutral value 1
  the rank would be 25000, the code returns -25000.
\<close>

theorem negative_correlation_not_neutralised:
  "js_lt (calculateHistoricalCorrelation spec_history) (Num 0) \<and>
   js_round (js_mul (getBaseRank (Num (1 / 2))) (Num 1)) = Num 25000 \<and>
   calculatePredictedRank spec_history (Num (1 / 2)) = Num (- 25000)"
  by (simp add: spec_history_correlation calculatePredictedRank_def getBaseRank_def Let_def
      js_sub_def)

section \<open>Confidence interval\<close>

lemma standard_error_nonneg: "calculateStandardError h = Num se \<Longrightarrow> 0 \<le> se"
  unfolding calculateStandardError_def Let_def by (rule js_sqrt_Num)

lemma predicted_rank_integer: "calculatePredictedRank h ns = Num r \<Longrightarrow> \<exists>k. r = of_int k"
  unfolding calculatePredictedRank_def Let_def by (rule js_round_Num)

lemma confidence_interval_Num:
  assumes se: "calculateStandardError h = Num se"
  shows "calculateConfidenceInterval h (Num r) =
           \<lparr> lower = Num (max 1 (of_int \<lfloor>r - 196 / 100 * se + 1 / 2\<rfloor>)),
             upper = Num (of_int \<lfloor>r + 196 / 100 * se + 1 / 2\<rfloor>) \<rparr>"
  using se by (simp add: calculateConfidenceInterval_def Let_def js_sub_def js_max_Num)

text \<open>
  C2 (as amended). When the standard error and the predicted rank are finite numbers,
  the interval returned with the prediction has \<open>lower \<ge> 1\<close> and
  \<open>predictedRank \<le> upper\<close>, and \<open>lower \<le> predictedRank\<close> holds exactly when
  \<open>predictedRank \<ge> 1\<close>: the predicted rank itself is not floored at 1.
\<close>

theorem confidence_interval_bounds:
  assumes se: "calculateStandardError h = Num se"
    and pr: "predictedRank (predictRank h p) = Num r"
  shows "\<exists>l u. confidenceInterval (predictRank h p) = \<lparr> lower = Num l, upper = Num u \<rparr>
           \<and> 1 \<le> l \<and> r \<le> u \<and> (l \<le> r \<longleftrightarrow> 1 \<le> r)"
proof -
  from pr have pr': "calculatePredictedRank h (normalizeScore h p) = Num r"
    by (simp add: predictRank_def Let_def)
  then obtain k where k: "r = of_int k" using predicted_rank_integer by blast
  have m: "0 \<le> 196 / 100 * se" using standard_error_nonneg [OF se] by simp
  let ?l = "max 1 (real_of_int \<lfloor>r - 196 / 100 * se + 1 / 2\<rfloor>)"
  let ?u = "real_of_int \<lfloor>r + 196 / 100 * se + 1 / 2\<rfloor>"
  have ci: "confidenceInterval (predictRank h p) = \<lparr> lower = Num ?l, upper = Num ?u \<rparr>"
    using pr' confidence_interval_Num [OF se, of r] by (simp add: predictRank_def Let_def)
  have lo: "real_of_int \<lfloor>r - 196 / 100 * se + 1 / 2\<rfloor> \<le> r"
    using interval_around_integer(1) [OF m, of k] k by simp
  have up: "r \<le> ?u" using interval_around_integer(2) [OF m, of k] k by simp
  have "1 \<le> ?l" by simp
  moreover have "?l \<le> r \<longleftrightarrow> 1 \<le> r" using lo by auto
  ultimately show ?thesis using ci up by blast
qed

text \<open>
  A history of two attempts with scores 50 and 150 and ranks 3000 and 1000: consistency
  0.5, improvement 2, correlation -1 and standard error 4000.
\<close>

lemma sqrt_numerals:
  "sqrt 2500 = 50" "sqrt 10000000000 = 100000" "sqrt 16000000 = 4000"
proof -
  have "(2500::real) = 50\<^sup>2" "(10000000000::real) = 100000\<^sup>2" "(16000000::real) = 4000\<^sup>2"
    by simp_all
  then show "sqrt 2500 = 50" "sqrt 10000000000 = 100000" "sqrt 16000000 = 4000"
    by (simp_all only: real_sqrt_abs)
qed

lemma two_attempts_consistency: "calculateConsistency two_attempts = Num (1 / 2)"
  by (simp add: calculateConsistency_def two_attempts_def Let_def js_sum_def js_len_def
      js_sub_def sqrt_numerals)

lemma two_attempts_improvement: "calculateImprovement two_attempts = Num 2"
  by (simp add: calculateImprovement_def two_attempts_def Let_def js_sub_def)

lemma two_attempts_correlation: "calculateHistoricalCorrelation two_attempts = Num (- 1)"
  by (simp add: calculateHistoricalCorrelation_def two_attempts_def Let_def js_sum_def
      js_len_def js_sub_def sqrt_numerals)

lemma two_attempts_normalize:
  "normalizeScore two_attempts p = js_add (js_add (js_add
       (js_mul (accuracy p) (Num (4 / 10)))
       (js_mul (speed p) (Num (2 / 10)))) (Num (1 / 10))) (Num (4 / 10))"
  by (simp add: normalizeScore_def two_attempts_consistency two_attempts_improvement)

lemma two_attempts_predicted:
  "calculatePredictedRank two_attempts (Num n) =
     Num (- real_of_int \<lfloor>50000 * (1 - n) + 1 / 2\<rfloor>)"
  by (simp add: calculatePredictedRank_def getBaseRank_def Let_def js_sub_def
      two_attempts_correlation)

lemma two_attempts_se: "calculateStandardError two_attempts = Num 4000"
  by (simp add: calculateStandardError_def Let_def two_attempts_def
      two_attempts_normalize [unfolded two_attempts_def]
      two_attempts_predicted [unfolded two_attempts_def]
      js_sub_def js_sum_def js_len_def sqrt_numerals)

lemma two_attempts_rank: "predictedRank (predictRank two_attempts mid_performance) = Num 15000"
  by (simp add: predictRank_def Let_def two_attempts_normalize mid_performance_def
      two_attempts_predicted)

lemma two_attempts_interval:
  "confidenceInterval (predictRank two_attempts mid_performance) =
     \<lparr> lower = Num 7160, upper = Num 22840 \<rparr>"
  using two_attempts_rank
  by (simp add: predictRank_def Let_def calculateConfidenceInterval_def two_attempts_se
      js_sub_def js_max_Num)

theorem confidence_interval_bounds_witness:
  "calculateStandardError two_attempts = Num 4000 \<and>
   predictedRank (predictRank two_attempts mid_performance) = Num 15000 \<and>
   confidenceInterval (predictRank two_attempts mid_performance) =
     \<lparr> lower = Num 7160, upper = Num 22840 \<rparr> \<and>
   (\<exists>l u. confidenceInterval (predictRank two_attempts mid_performance) =
       \<lparr> lower = Num l, upper = Num u \<rparr>
       \<and> 1 \<le> l \<and> 15000 \<le> u \<and> (l \<le> 15000 \<longleftrightarrow> (1::real) \<le> 15000))"
  using confidence_interval_bounds [OF two_attempts_se two_attempts_rank]
    two_attempts_se two_attempts_rank two_attempts_interval by simp

text \<open>
  One historical attempt and the README's current performance (accuracy 80, speed 100):
  the predicted rank is negative and \<open>lower = 1\<close> lies above it.
\<close>

theorem confidence_interval_above_negative_rank:
  "predictedRank (predictRank one_attempt readme_performance) = Num (- 2560000) \<and>
   confidenceInterval (predictRank one_attempt readme_performance) =
     \<lparr> lower = Num 1, upper = Num (- 2560000) \<rparr> \<and>
   \<not> js_le (lower (confidenceInterval (predictRank one_attempt readme_performance)))
        (predictedRank (predictRank one_attempt readme_performance))"
  by (simp add: predictRank_def one_attempt_def readme_performance_def Let_def js_sub_def
      calculatePredictedRank_def normalizeScore_def calculateConsistency_def
      calculateImprovement_def calculateHistoricalCorrelation_def getBaseRank_def
      calculateConfidenceInterval_def calculateStandardError_def js_sum_def js_len_def
      js_max_def js_le_def)

section \<open>A single historical attempt\<close>

text \<open>
  C7 (as amended). For every history of exactly one attempt, \<open>calculateImprovementRate\<close>
  is 0 and \<open>calculateTopicImprovement\<close> is 0 for every topic. When the attempt's
  accuracy, speed and rank are finite, the standard error is 0; when the current accuracy
  and speed are finite as well, the confidence interval is
  \<open>{lower: max(1, predictedRank), upper: predictedRank}\<close>, which is the point
  \<open>{predictedRank, predictedRank}\<close> when \<open>predictedRank \<ge> 1\<close>.
\<close>

theorem single_attempt_defaults:
  "calculateImprovementRate [d] = Num 0
   \<and> calculateTopicImprovement currentQuiz answers [d] topic = Num 0
   \<and> (accuracy d = Num a \<and> speed d = Num s \<and> rank d = Num r \<longrightarrow>
        calculateStandardError [d] = Num 0)
   \<and> (accuracy d = Num a \<and> speed d = Num s \<and> rank d = Num r
        \<and> accuracy p = Num pa \<and> speed p = Num ps \<longrightarrow>
        confidenceInterval (predictRank [d] p) =
           \<lparr> lower = js_max (Num 1) (predictedRank (predictRank [d] p)),
             upper = predictedRank (predictRank [d] p) \<rparr>
        \<and> (js_le (Num 1) (predictedRank (predictRank [d] p)) \<longrightarrow>
             confidenceInterval (predictRank [d] p) =
               \<lparr> lower = predictedRank (predictRank [d] p),
                 upper = predictedRank (predictRank [d] p) \<rparr>))"
proof (intro conjI impI)
  show "calculateImprovementRate [d] = Num 0"
    by (simp add: calculateImprovementRate_def)
  show "calculateTopicImprovement currentQuiz answers [d] topic = Num 0"
    by (simp add: calculateTopicImprovement_def js_slice_def Let_def)
  have se: "calculateStandardError [d] = Num 0"
    if "accuracy d = Num a \<and> speed d = Num s \<and> rank d = Num r"
    using that
    by (simp add: calculateStandardError_def Let_def js_sum_def js_len_def
      js_sub_def calculatePredictedRank_def normalizeScore_def calculateConsistency_def
      calculateImprovement_def calculateHistoricalCorrelation_def getBaseRank_def)
  show "calculateStandardError [d] = Num 0"
    if "accuracy d = Num a \<and> speed d = Num s \<and> rank d = Num r"
    using that by (rule se)
  assume fin: "accuracy d = Num a \<and> speed d = Num s \<and> rank d = Num r
        \<and> accuracy p = Num pa \<and> speed p = Num ps"
  then have se0: "calculateStandardError [d] = Num 0" using se by blast
  obtain k :: int where k: "predictedRank (predictRank [d] p) = Num (of_int k)"
    using fin
    by (simp add: predictRank_def Let_def js_sub_def
      calculatePredictedRank_def normalizeScore_def calculateConsistency_def
      calculateImprovement_def calculateHistoricalCorrelation_def getBaseRank_def)
  then show ci: "confidenceInterval (predictRank [d] p) =
           \<lparr> lower = js_max (Num 1) (predictedRank (predictRank [d] p)),
             upper = predictedRank (predictRank [d] p) \<rparr>"
    using confidence_interval_Num [OF se0, of "of_int k"]
    by (simp add: predictRank_def Let_def js_max_Num)
  assume "js_le (Num 1) (predictedRank (predictRank [d] p))"
  then have "js_max (Num 1) (predictedRank (predictRank [d] p)) =
      predictedRank (predictRank [d] p)"
    unfolding k by (auto simp: js_le_def js_max_def)
  with ci show "confidenceInterval (predictRank [d] p) =
               \<lparr> lower = predictedRank (predictRank [d] p),
                 upper = predictedRank (predictRank [d] p) \<rparr>"
    by simp
qed

theorem single_attempt_defaults_witness:
  "calculateImprovementRate one_attempt = Num 0
   \<and> calculateTopicImprovement [] Map.empty one_attempt ''Human Physiology'' = Num 0
   \<and> calculateStandardError one_attempt = Num 0
   \<and> predictedRank (predictRank one_attempt low_performance) = Num 10000
   \<and> confidenceInterval (predictRank one_attempt low_performance) =
        \<lparr> lower = Num 10000, upper = Num 10000 \<rparr>
   \<and> calculateImprovementRate unranked_attempt = Num 0
   \<and> calculateTopicImprovement [] Map.empty unranked_attempt ''Human Physiology'' = Num 0"
proof -
  have rank: "predictedRank (predictRank one_attempt low_performance) = Num 10000"
    by (simp add: predictRank_def one_attempt_def low_performance_def Let_def js_sub_def
      calculatePredictedRank_def normalizeScore_def calculateConsistency_def
      calculateImprovement_def calculateHistoricalCorrelation_def getBaseRank_def)
  show ?thesis
    using single_attempt_defaults [of "hd one_attempt" "[]" Map.empty "''Human Physiology''"
        1 "1 / 2" 12000 low_performance 1 1]
      single_attempt_defaults [of "hd unranked_attempt" "[]" Map.empty
        "''Human Physiology''"] rank
    by (simp add: one_attempt_def unranked_attempt_def low_performance_def js_max_Num)
qed

text \<open>
  Without a rank the two defaults still hold, but the standard error is \<open>NaN\<close>, and with
  it both bounds of the interval.
\<close>

lemma unranked_attempt_standard_error:
  "calculateStandardError unranked_attempt = NaN \<and>
   confidenceInterval (predictRank unranked_attempt low_performance) =
     \<lparr> lower = NaN, upper = NaN \<rparr>"
  by (simp add: predictRank_def unranked_attempt_def low_performance_def Let_def js_sub_def
      calculatePredictedRank_def normalizeScore_def calculateConsistency_def
      calculateImprovement_def calculateHistoricalCorrelation_def getBaseRank_def
      calculateConfidenceInterval_def calculateStandardError_def js_sum_def js_len_def
      js_max_def)

text \<open>
  One attempt and a current performance of accuracy 90 and speed 95: the normalized score
  is 55.2, the predicted rank -2710000 and the interval \<open>{lower: 1, upper: -2710000}\<close>,
  not the point.
\<close>

theorem single_attempt_interval_not_point:
  "calculateStandardError one_attempt = Num 0 \<and>
   predictedRank (predictRank one_attempt strong_performance) = Num (- 2710000) \<and>
   confidenceInterval (predictRank one_attempt strong_performance) =
     \<lparr> lower = Num 1, upper = Num (- 2710000) \<rparr>"
  by (simp add: predictRank_def one_attempt_def strong_performance_def Let_def js_sub_def
      calculatePredictedRank_def normalizeScore_def calculateConsistency_def
      calculateImprovement_def calculateHistoricalCorrelation_def getBaseRank_def
      calculateConfidenceInterval_def calculateStandardError_def js_sum_def js_len_def
      js_max_def)

section \<open>Objects as dictionaries: keys and enumeration\<close>

lemma object_entries_set: "set (object_entries obj) = set obj"
  by (auto simp: object_entries_def)

lemma object_entries_distinct:
  assumes "distinct (map fst obj)"
  shows "distinct (map fst (object_entries obj))"
proof -
  from assms have d: "distinct obj" and i: "inj_on fst (set obj)"
    by (simp_all add: distinct_map)
  have "distinct (object_entries obj)"
    using d by (auto simp: object_entries_def)
  moreover have "inj_on fst (set (object_entries obj))"
    using i by (simp add: object_entries_set)
  ultimately show ?thesis by (simp add: distinct_map)
qed

lemma object_entries_map_of:
  assumes "distinct (map fst obj)"
  shows "map_of (object_entries obj) = map_of obj"
  using assms object_entries_distinct [OF assms] object_entries_set [of obj]
  by (simp add: map_of_inject_set)

lemma foldl_update_map_of:
  assumes "distinct (map fst es)"
  shows "map_of (foldl (\<lambda>r (k, v). AList.update k (f v) r) r0 es) t =
           (case map_of es t of None \<Rightarrow> map_of r0 t | Some v \<Rightarrow> Some (f v))"
  using assms
proof (induction es arbitrary: r0)
  case Nil
  then show ?case by simp
next
  case (Cons e es)
  obtain k v where e: "e = (k, v)" by (cases e)
  from Cons.prems have d: "distinct (map fst es)" and k: "map_of es k = None"
    by (auto simp: e map_of_eq_None_iff)
  show ?case
  proof (cases "t = k")
    case True
    then show ?thesis using Cons.IH [OF d, of "AList.update k (f v) r0"] k
      by (simp add: e update_conv')
  next
    case False
    then show ?thesis using Cons.IH [OF d, of "AList.update k (f v) r0"]
      by (simp add: e update_conv' split: option.splits)
  qed
qed

lemma foldl_update_distinct:
  "distinct (map fst r0) \<Longrightarrow>
   distinct (map fst (foldl (\<lambda>r (k, v). AList.update k (f v) r) r0 es))"
  by (induction es arbitrary: r0) (auto simp: distinct_update)

section \<open>Topic aggregation\<close>

lemma accumulate_distinct: "distinct (map fst tp) \<Longrightarrow> distinct (map fst (accumulate tp a))"
  by (simp add: accumulate_def Let_def distinct_update)

lemma foldl_accumulate_distinct:
  "distinct (map fst tp) \<Longrightarrow> distinct (map fst (foldl accumulate tp h))"
  by (induction h arbitrary: tp) (simp_all add: accumulate_distinct)

lemma accumulate_attempts:
  "map_option attempts (map_of (accumulate tp a) t) =
     (if quiz_topic a = t \<and> \<not> inherited_key t
      then Some (Suc (case map_option attempts (map_of tp t) of None \<Rightarrow> 0 | Some n \<Rightarrow> n))
      else map_option attempts (map_of tp t))"
  by (auto simp: accumulate_def Let_def update_conv' split: option.splits)

lemma foldl_accumulate_attempts:
  "map_option attempts (map_of (foldl accumulate tp h) t) =
     (if inherited_key t \<or> filter (\<lambda>a. quiz_topic a = t) h = []
      then map_option attempts (map_of tp t)
      else Some ((case map_option attempts (map_of tp t) of None \<Rightarrow> 0 | Some n \<Rightarrow> n)
                 + length (filter (\<lambda>a. quiz_topic a = t) h)))"
proof (induction h arbitrary: tp)
  case Nil
  then show ?case by simp
next
  case (Cons a h)
  show ?case
    unfolding foldl_Cons Cons.IH [of "accumulate tp a"] accumulate_attempts
    by (auto split: option.splits)
qed

lemma topic_performance_finalized:
  "topicPerformance (analyzePerformance sub history) =
     map (\<lambda>(topic, stats). (topic, finalize stats)) (foldl accumulate [] history)"
  by (simp add: analyzePerformance_def Let_def)

lemma topic_performance_distinct:
  "distinct (map fst (topicPerformance (analyzePerformance sub history)))"
proof -
  have "map fst (topicPerformance (analyzePerformance sub history)) =
          map fst (foldl accumulate [] history)"
    by (simp add: topic_performance_finalized comp_def case_prod_beta)
  then show ?thesis using foldl_accumulate_distinct [of "[]" history] by simp
qed

lemma topic_performance_attempts:
  "map_option attempts (map_of (topicPerformance (analyzePerformance sub history)) t) =
     (if inherited_key t \<or> filter (\<lambda>a. quiz_topic a = t) history = [] then None
      else Some (length (filter (\<lambda>a. quiz_topic a = t) history)))"
proof -
  have "map_of (topicPerformance (analyzePerformance sub history)) t =
          map_option finalize (map_of (foldl accumulate [] history) t)"
    by (simp add: topic_performance_finalized map_of_map)
  then show ?thesis
    using foldl_accumulate_attempts [of "[]" history t]
    by (simp add: option.map_comp comp_def finalize_def)
qed

lemma topic_performance_averages:
  assumes "(t, stats) \<in> set (topicPerformance (analyzePerformance sub history))"
  shows "averageAccuracy stats = js_div (totalAccuracy stats) (Num (of_nat (attempts stats)))"
    and "averageMistakeRate stats = js_div (mistakeRate stats) (Num (of_nat (attempts stats)))"
  using assms by (auto simp: topic_performance_finalized finalize_def)

lemma count_question_total:
  "map_option total (map_of (count_question cq ans ts q) t) =
     (if q_topic q = t \<and> \<not> inherited_key t
      then Some (Suc (case map_option total (map_of ts t) of None \<Rightarrow> 0 | Some n \<Rightarrow> n))
      else map_option total (map_of ts t))"
  by (auto simp: count_question_def Let_def update_conv' split: option.splits)

lemma foldl_count_question_total:
  "map_option total (map_of (foldl (count_question cq ans) ts qs) t) =
     (if inherited_key t \<or> filter (\<lambda>q. q_topic q = t) qs = []
      then map_option total (map_of ts t)
      else Some ((case map_option total (map_of ts t) of None \<Rightarrow> 0 | Some n \<Rightarrow> n)
                 + length (filter (\<lambda>q. q_topic q = t) qs)))"
proof (induction qs arbitrary: ts)
  case Nil
  then show ?case by simp
next
  case (Cons q qs)
  show ?case
    unfolding foldl_Cons Cons.IH [of "count_question cq ans ts q"] count_question_total
    by (auto split: option.splits)
qed

lemma count_question_distinct:
  "distinct (map fst ts) \<Longrightarrow> distinct (map fst (count_question cq ans ts q))"
  by (simp add: count_question_def Let_def distinct_update)

lemma foldl_count_question_distinct:
  "distinct (map fst ts) \<Longrightarrow> distinct (map fst (foldl (count_question cq ans) ts qs))"
  by (induction qs arbitrary: ts) (simp_all add: count_question_distinct)

lemma calculateTopicPerformance_map_of:
  "map_of (calculateTopicPerformance cq ans) t =
     map_option (\<lambda>stats.
        \<lparr> ta_accuracy = js_div (Num (of_nat (correct stats))) (Num (of_nat (total stats))),
          totalQuestions = total stats, correctAnswers = correct stats \<rparr>)
       (map_of (foldl (count_question cq ans) [] cq) t)"
proof -
  let ?ts = "foldl (count_question cq ans) [] cq"
  have d: "distinct (map fst ?ts)" using foldl_count_question_distinct [of "[]"] by simp
  show ?thesis
    unfolding calculateTopicPerformance_def Let_def
    by (simp add: foldl_update_map_of [OF object_entries_distinct [OF d]]
        object_entries_map_of [OF d] split: option.splits)
qed

lemma calculateTopicPerformance_distinct:
  "distinct (map fst (calculateTopicPerformance cq ans))"
  unfolding calculateTopicPerformance_def Let_def
  by (rule foldl_update_distinct) simp

text \<open>
  C5. A topic with no observed attempt is not a key of \<open>topicPerformance\<close>, and every entry
  counts at least one attempt, so the averages of an entry are quotients by a count of
  at least 1. The same holds for the per-topic question counts of
  \<open>calculateTopicPerformance\<close>, whose accuracies are therefore finite.
\<close>

theorem zero_attempt_topics_absent:
  "(filter (\<lambda>a. quiz_topic a = t) history = [] \<longrightarrow>
      t \<notin> fst ` set (topicPerformance (analyzePerformance sub history)))
   \<and> (\<forall>stats. (t, stats) \<in> set (topicPerformance (analyzePerformance sub history)) \<longrightarrow>
        attempts stats = length (filter (\<lambda>a. quiz_topic a = t) history)
        \<and> 1 \<le> attempts stats
        \<and> averageAccuracy stats =
            js_div (totalAccuracy stats) (Num (of_nat (attempts stats)))
        \<and> averageMistakeRate stats =
            js_div (mistakeRate stats) (Num (of_nat (attempts stats))))
   \<and> (filter (\<lambda>q. q_topic q = t) currentQuiz = [] \<longrightarrow>
        t \<notin> fst ` set (calculateTopicPerformance currentQuiz answers))
   \<and> (\<forall>acc. (t, acc) \<in> set (calculateTopicPerformance currentQuiz answers) \<longrightarrow>
        totalQuestions acc = length (filter (\<lambda>q. q_topic q = t) currentQuiz)
        \<and> 1 \<le> totalQuestions acc
        \<and> ta_accuracy acc = Num (of_nat (correctAnswers acc) / of_nat (totalQuestions acc)))"
proof (intro conjI allI impI)
  let ?tp = "topicPerformance (analyzePerformance sub history)"
  let ?ctp = "calculateTopicPerformance currentQuiz answers"
  let ?ts = "foldl (count_question currentQuiz answers) [] currentQuiz"
  show "t \<notin> fst ` set ?tp" if "filter (\<lambda>a. quiz_topic a = t) history = []"
    using that topic_performance_attempts [of sub history t]
    by (simp add: map_of_eq_None_iff)
  show "t \<notin> fst ` set ?ctp" if "filter (\<lambda>q. q_topic q = t) currentQuiz = []"
  proof -
    have "map_of ?ts t = None"
      using that foldl_count_question_total [of currentQuiz answers "[]" currentQuiz t]
      by simp
    then have "map_of ?ctp t = None"
      by (simp only: calculateTopicPerformance_map_of option.map)
    then show ?thesis by (simp only: map_of_eq_None_iff not_False_eq_True)
  qed
  {
    fix stats
    assume mem: "(t, stats) \<in> set ?tp"
    then have "map_of ?tp t = Some stats"
      using topic_performance_distinct by (simp add: map_of_is_SomeI)
    then have a: "filter (\<lambda>a. quiz_topic a = t) history \<noteq> []
        \<and> attempts stats = length (filter (\<lambda>a. quiz_topic a = t) history)"
      using topic_performance_attempts [of sub history t] by (simp split: if_splits)
    then show "attempts stats = length (filter (\<lambda>a. quiz_topic a = t) history)" by simp
    from a show "1 \<le> attempts stats" by (simp add: Suc_le_eq)
    show "averageAccuracy stats = js_div (totalAccuracy stats) (Num (of_nat (attempts stats)))"
      using mem by (rule topic_performance_averages)
    show "averageMistakeRate stats =
            js_div (mistakeRate stats) (Num (of_nat (attempts stats)))"
      using mem by (rule topic_performance_averages)
  }
  {
    fix acc
    assume "(t, acc) \<in> set ?ctp"
    then have "map_of ?ctp t = Some acc"
      using calculateTopicPerformance_distinct by (simp add: map_of_is_SomeI)
    then obtain stats where st: "map_of ?ts t = Some stats"
      and acc: "acc = \<lparr> ta_accuracy =
            js_div (Num (of_nat (correct stats))) (Num (of_nat (total stats))),
          totalQuestions = total stats, correctAnswers = correct stats \<rparr>"
      unfolding calculateTopicPerformance_map_of by auto
    from st have n: "filter (\<lambda>q. q_topic q = t) currentQuiz \<noteq> []
        \<and> total stats = length (filter (\<lambda>q. q_topic q = t) currentQuiz)"
      using foldl_count_question_total [of currentQuiz answers "[]" currentQuiz t]
      by (simp split: if_splits)
    then show "totalQuestions acc = length (filter (\<lambda>q. q_topic q = t) currentQuiz)"
      by (simp add: acc)
    from n have pos: "1 \<le> total stats" by (simp add: Suc_le_eq)
    then show "1 \<le> totalQuestions acc" by (simp add: acc)
    from pos show "ta_accuracy acc =
        Num (of_nat (correctAnswers acc) / of_nat (totalQuestions acc))"
      by (simp add: acc)
  }
qed

lemma sample_topic_performance:
  "map (\<lambda>(t, s). (t, attempts s, averageAccuracy s, averageMistakeRate s))
     (topicPerformance (analyzePerformance sub_over sample_history)) =
   [(''Biology'', 2, Num 65, Num (35 / 100)),
    (''Chemistry'', 1, Num 50, Num (1 / 2)),
    (''Physics'', 1, Num 90, Num (1 / 10))]"
  by (simp add: analyzePerformance_def sample_history_def Let_def accumulate_def
      inherited_key_def finalize_def)

lemma sample_quiz_performance:
  "calculateTopicPerformance sample_quiz sample_answers =
     [(''Biology'', \<lparr> ta_accuracy = Num 1, totalQuestions = 2, correctAnswers = 2 \<rparr>),
      (''Chemistry'', \<lparr> ta_accuracy = Num 0, totalQuestions = 1, correctAnswers = 0 \<rparr>)]"
  by (simp add: calculateTopicPerformance_def sample_quiz_def sample_answers_def Let_def
      count_question_def inherited_key_def isCorrectAnswer_def object_entries_def
      array_index_def is_digit_def)

theorem zero_attempt_topics_absent_witness:
  "filter (\<lambda>a. quiz_topic a = ''Botany'') sample_history = []
   \<and> ''Botany'' \<notin> fst ` set (topicPerformance (analyzePerformance sub_over sample_history))
   \<and> filter (\<lambda>q. q_topic q = ''Botany'') sample_quiz = []
   \<and> ''Botany'' \<notin> fst ` set (calculateTopicPerformance sample_quiz sample_answers)
   \<and> length (filter (\<lambda>a. quiz_topic a = ''Biology'') sample_history) = 2
   \<and> (\<exists>stats. (''Biology'', stats) \<in>
          set (topicPerformance (analyzePerformance sub_over sample_history))
        \<and> attempts stats = 2 \<and> averageAccuracy stats = Num 65)
   \<and> calculateTopicPerformance sample_quiz sample_answers =
       [(''Biology'', \<lparr> ta_accuracy = Num 1, totalQuestions = 2, correctAnswers = 2 \<rparr>),
        (''Chemistry'', \<lparr> ta_accuracy = Num 0, totalQuestions = 1, correctAnswers = 0 \<rparr>)]"
proof -
  have h: "filter (\<lambda>a. quiz_topic a = ''Botany'') sample_history = []"
    by (simp add: sample_history_def)
  have q: "filter (\<lambda>q. q_topic q = ''Botany'') sample_quiz = []"
    by (simp add: sample_quiz_def)
  have b: "length (filter (\<lambda>a. quiz_topic a = ''Biology'') sample_history) = 2"
    by (simp add: sample_history_def)
  obtain stats where s: "(''Biology'', stats) \<in>
      set (topicPerformance (analyzePerformance sub_over sample_history))"
    and acc: "averageAccuracy stats = Num 65"
    using sample_topic_performance by (auto simp: map_eq_Cons_conv)
  from zero_attempt_topics_absent
      [of "''Biology''" sample_history sub_over sample_quiz sample_answers] s b
  have "attempts stats = 2" by simp
  with s acc have e: "\<exists>stats. (''Biology'', stats) \<in>
          set (topicPerformance (analyzePerformance sub_over sample_history))
        \<and> attempts stats = 2 \<and> averageAccuracy stats = Num 65" by blast
  show ?thesis
    using zero_attempt_topics_absent
      [of "''Botany''" sample_history sub_over sample_quiz sample_answers]
      h q b e sample_quiz_performance
    by simp
qed

section \<open>Weak areas\<close>

text \<open>
  C1 (as amended). The weak-areas list holds exactly the topics of \<open>topicPerformance\<close>
  whose \<open>averageAccuracy\<close> is below 70 or whose \<open>averageMistakeRate\<close> exceeds 0.3, each
  once and with these two averages. Its order is the enumeration order of the keys of
  \<open>topicPerformance\<close> (\<open>Object.entries\<close>); it is not sorted by accuracy.
\<close>

theorem weak_areas_membership:
  "(t \<in> set (map wa_topic (weakAreas (analyzePerformance sub history))) \<longleftrightarrow>
      (\<exists>stats. (t, stats) \<in> set (topicPerformance (analyzePerformance sub history))
         \<and> (js_lt (averageAccuracy stats) (Num 70)
              \<or> js_gt (averageMistakeRate stats) (Num (3 / 10)))))
   \<and> distinct (map wa_topic (weakAreas (analyzePerformance sub history)))
   \<and> weakAreas (analyzePerformance sub history) =
       map (\<lambda>(topic, stats). \<lparr> wa_topic = topic, wa_averageAccuracy = averageAccuracy stats,
                                wa_mistakeRate = averageMistakeRate stats \<rparr>)
         (filter (\<lambda>(topic, stats). js_lt (averageAccuracy stats) (Num 70)
                     \<or> js_gt (averageMistakeRate stats) (Num (3 / 10)))
            (object_entries (topicPerformance (analyzePerformance sub history))))"
proof -
  let ?tp = "topicPerformance (analyzePerformance sub history)"
  let ?mk = "\<lambda>(topic, stats). \<lparr> wa_topic = topic, wa_averageAccuracy = averageAccuracy stats,
                                wa_mistakeRate = averageMistakeRate stats \<rparr>"
  let ?weak = "\<lambda>(topic, stats). js_lt (averageAccuracy stats) (Num 70)
                     \<or> js_gt (averageMistakeRate stats) (Num (3 / 10))"
  have w: "weakAreas (analyzePerformance sub history) =
             map ?mk (filter ?weak (object_entries ?tp))"
    by (simp add: analyzePerformance_def Let_def is_weak_def)
  have topics: "map wa_topic (map ?mk (filter ?weak (object_entries ?tp))) =
                  map fst (filter ?weak (object_entries ?tp))"
    by (simp add: comp_def case_prod_beta)
  have "distinct (map fst (object_entries ?tp))"
    using topic_performance_distinct by (rule object_entries_distinct)
  then have d: "distinct (map fst (filter ?weak (object_entries ?tp)))"
    by (rule distinct_map_filter)
  have m: "t \<in> set (map fst (filter ?weak (object_entries ?tp))) \<longleftrightarrow>
             (\<exists>stats. (t, stats) \<in> set ?tp \<and> (js_lt (averageAccuracy stats) (Num 70)
                \<or> js_gt (averageMistakeRate stats) (Num (3 / 10))))"
    by (force simp: object_entries_set)
  show ?thesis
    unfolding w topics using d m by simp
qed

lemma sample_weak_areas:
  "weakAreas (analyzePerformance sub_over sample_history) =
     [\<lparr> wa_topic = ''Biology'', wa_averageAccuracy = Num 65, wa_mistakeRate = Num (35 / 100) \<rparr>,
      \<lparr> wa_topic = ''Chemistry'', wa_averageAccuracy = Num 50, wa_mistakeRate = Num (1 / 2) \<rparr>]"
  by (simp add: analyzePerformance_def sample_history_def Let_def accumulate_def
      inherited_key_def finalize_def object_entries_def array_index_def is_digit_def
      is_weak_def js_gt_def)

theorem weak_areas_membership_witness:
  "map wa_topic (weakAreas (analyzePerformance sub_over sample_history)) =
     [''Biology'', ''Chemistry'']
   \<and> map fst (topicPerformance (analyzePerformance sub_over sample_history)) =
     [''Biology'', ''Chemistry'', ''Physics'']
   \<and> ''Physics'' \<notin> set (map wa_topic (weakAreas (analyzePerformance sub_over sample_history)))
   \<and> distinct (map wa_topic (weakAreas (analyzePerformance sub_over sample_history)))"
proof -
  have d: "distinct (map wa_topic (weakAreas (analyzePerformance sub_over sample_history)))"
    using weak_areas_membership [of "''Physics''" sub_over sample_history] by blast
  have k: "map fst (topicPerformance (analyzePerformance sub_over sample_history)) =
     [''Biology'', ''Chemistry'', ''Physics'']"
    using sample_topic_performance [THEN arg_cong, of "map fst"]
    by (simp add: comp_def case_prod_beta)
  show ?thesis using d k by (simp add: sample_weak_areas)
qed

text \<open>
  A history with Biology at accuracy 60 followed by Chemistry at accuracy 50: the list
  keeps the order of first appearance, and its second entry has the lower accuracy.
\<close>

theorem weak_areas_not_sorted:
  "weakAreas (analyzePerformance sub_over two_topic_history) =
     [\<lparr> wa_topic = ''Biology'', wa_averageAccuracy = Num 60, wa_mistakeRate = Num (4 / 10) \<rparr>,
      \<lparr> wa_topic = ''Chemistry'', wa_averageAccuracy = Num 50, wa_mistakeRate = Num (5 / 10) \<rparr>]
   \<and> js_lt (wa_averageAccuracy (weakAreas (analyzePerformance sub_over two_topic_history) ! 1))
        (wa_averageAccuracy (weakAreas (analyzePerformance sub_over two_topic_history) ! 0))"
  by (simp add: analyzePerformance_def two_topic_history_def Let_def accumulate_def
      inherited_key_def finalize_def object_entries_def array_index_def is_digit_def
      is_weak_def js_gt_def)

section \<open>Moving average and trends\<close>

lemma js_slice_window:
  assumes "i < length data"
  shows "js_slice data (max 0 (int i - w + 1)) (int i + 1) =
           take (min (i + 1) (nat w)) (drop (i + 1 - min (i + 1) (nat w)) data)"
proof -
  have len: "int i + 1 \<le> int (length data)" using assms by simp
  consider "w \<le> 0" | "0 < w" "int i + 1 \<le> w" | "0 < w" "w < int i + 1" by linarith
  then show ?thesis
  proof cases
    case 1
    then show ?thesis using assms by (simp add: js_slice_def Let_def min_def max_def)
  next
    case 2
    then have "min (i + 1) (nat w) = i + 1" by simp
    moreover have "max 0 (int i - w + 1) = 0" using 2 by simp
    moreover have "nat (int i + 1) = Suc i" by linarith
    ultimately show ?thesis using assms by (simp add: js_slice_def Let_def min_def)
  next
    case 3
    then have k: "min (i + 1) (nat w) = nat w" by simp
    have s: "max 0 (int i - w + 1) = int i - w + 1" using 3 by simp
    have "nat (int i + 1 - (int i - w + 1)) = nat w" by simp
    moreover have "nat (int i - w + 1) = i + 1 - nat w" using 3 by linarith
    ultimately show ?thesis using assms 3 len unfolding k s
      by (simp add: js_slice_def Let_def min_def)
  qed
qed

lemma moving_average_nth:
  assumes "i < length data"
  shows "calculateMovingAverage data w ! i =
           calculateMean (take (min (i + 1) (nat w)) (drop (i + 1 - min (i + 1) (nat w)) data))"
  using assms js_slice_window [OF assms, of w] by (simp add: calculateMovingAverage_def)

lemma window_length:
  assumes "i < length data"
  shows "length (take (min (i + 1) (nat w)) (drop (i + 1 - min (i + 1) (nat w)) data)) =
           min (i + 1) (nat w)"
  using assms by (auto simp: min_def)

lemma map_insort_key: "map f (insort_key f x ys) = insort (f x) (map f ys)"
  by (induction ys) auto

lemma map_sort_key: "map f (sort_key f xs) = sort (map f xs)"
  by (induction xs) (simp_all add: map_insort_key)

lemma push_topics_error:
  "push_topics tw ss = Inl e \<Longrightarrow> \<exists>s \<in> set ss. \<exists>t. h_topic s = Some t \<and> inherited_key t"
proof (induction ss arbitrary: tw)
  case Nil
  then show ?case by simp
next
  case (Cons s ss)
  show ?case
  proof (cases "push_topic tw s")
    case (Inl e')
    then have "\<exists>t. h_topic s = Some t \<and> inherited_key t"
      by (auto simp: push_topic_def Let_def split: option.splits if_splits)
    then show ?thesis by auto
  next
    case (Inr tw')
    with Cons.prems have "push_topics tw' ss = Inl e" by simp
    from Cons.IH [OF this] show ?thesis by auto
  qed
qed

lemma trends_result:
  assumes "analyzeImprovementTrends subs = Inr t"
  shows "map sm_date (tr_accuracy t) = sort (map h_date subs)"
    and "map pt_date (tr_speed t) = sort (map h_date subs)"
    and "map sm_raw (tr_accuracy t) = map sub_accuracy_pct (sort_key h_date subs)"
    and "map sm_value (tr_accuracy t) = calculateMovingAverage (map sm_raw (tr_accuracy t)) 3"
    and "map pt_value (tr_speed t) = map h_speed (sort_key h_date subs)"
proof -
  let ?s = "sort_key h_date subs"
  let ?raw = "map (\<lambda>s. \<lparr> pt_date = h_date s, pt_value = sub_accuracy_pct s \<rparr>) ?s"
  let ?avg = "calculateMovingAverage (map pt_value ?raw) 3"
  have len: "length ?avg = length ?raw" by (simp add: calculateMovingAverage_def)
  from assms have acc: "tr_accuracy t =
      map (\<lambda>i. \<lparr> sm_date = pt_date (?raw ! i), sm_value = ?avg ! i,
                 sm_raw = pt_value (?raw ! i) \<rparr>) [0 ..< length ?avg]"
    and sp: "tr_speed t = map (\<lambda>s. \<lparr> pt_date = h_date s, pt_value = h_speed s \<rparr>) ?s"
    by (auto simp: analyzeImprovementTrends_def Let_def split: sum.splits)
  have srt: "map h_date ?s = sort (map h_date subs)"
    by (rule map_sort_key)
  have d: "map sm_date (tr_accuracy t) = map pt_date ?raw"
    unfolding acc len by (rule nth_equalityI) simp_all
  show "map sm_date (tr_accuracy t) = sort (map h_date subs)"
    using d srt by (simp add: comp_def)
  show "map pt_date (tr_speed t) = sort (map h_date subs)"
    using sp srt by (simp add: comp_def)
  have r: "map sm_raw (tr_accuracy t) = map pt_value ?raw"
    unfolding acc len by (rule nth_equalityI) simp_all
  then show "map sm_raw (tr_accuracy t) = map sub_accuracy_pct (sort_key h_date subs)"
    by (simp add: comp_def)
  have "map sm_value (tr_accuracy t) = ?avg"
    unfolding acc by (rule nth_equalityI) simp_all
  then show "map sm_value (tr_accuracy t) = calculateMovingAverage (map sm_raw (tr_accuracy t)) 3"
    using r by simp
  show "map pt_value (tr_speed t) = map h_speed (sort_key h_date subs)"
    using sp by (simp add: comp_def)
qed

text \<open>
  C9. The moving average has the length of its input, and its value at position \<open>i\<close> is
  the mean of the last \<open>k = min (i + 1) windowSize\<close> elements of the prefix ending at
  position \<open>i\<close> (for a window size below 1 the window is empty and the value is
  \<open>calculateMean\<close>'s 0). The accuracy and speed sequences of \<open>analyzeImprovementTrends\<close>
  are those of the submissions sorted by date, ascending; the smoothed accuracy is the
  moving average of window 3 over the raw one. The function fails only when a topic is
  named like a member of \<open>Object.prototype\<close>.
\<close>

theorem moving_average_and_trends:
  "length (calculateMovingAverage data w) = length data
   \<and> (\<forall>i < length data.
        let k = min (i + 1) (nat w);
            window = take k (drop (i + 1 - k) data)
        in length window = k
           \<and> calculateMovingAverage data w ! i =
               (if w \<le> 0 then Num 0 else js_div (js_sum window) (Num (of_nat k))))
   \<and> (\<forall>t. analyzeImprovementTrends subs = Inr t \<longrightarrow>
          sorted (map sm_date (tr_accuracy t))
        \<and> sorted (map pt_date (tr_speed t))
        \<and> map sm_date (tr_accuracy t) = sort (map h_date subs)
        \<and> map pt_date (tr_speed t) = sort (map h_date subs)
        \<and> map sm_raw (tr_accuracy t) = map sub_accuracy_pct (sort_key h_date subs)
        \<and> map pt_value (tr_speed t) = map h_speed (sort_key h_date subs)
        \<and> map sm_value (tr_accuracy t) =
            calculateMovingAverage (map sm_raw (tr_accuracy t)) 3)
   \<and> (\<forall>e. analyzeImprovementTrends subs = Inl e \<longrightarrow>
          (\<exists>s \<in> set subs. \<exists>topic. h_topic s = Some topic \<and> inherited_key topic))"
proof (intro conjI allI impI)
  show "length (calculateMovingAverage data w) = length data"
    by (simp add: calculateMovingAverage_def)
next
  fix i assume i: "i < length data"
  let ?k = "min (i + 1) (nat w)"
  let ?window = "take ?k (drop (i + 1 - ?k) data)"
  have l: "length ?window = ?k" using i by (rule window_length)
  have "calculateMovingAverage data w ! i =
          (if w \<le> 0 then Num 0 else js_div (js_sum ?window) (Num (of_nat ?k)))"
  proof (cases "w \<le> 0")
    case True
    then show ?thesis using moving_average_nth [OF i, of w] by (simp add: calculateMean_def)
  next
    case False
    then have "?k \<noteq> 0" by simp
    with l have "?window \<noteq> []" by (metis length_0_conv)
    then show ?thesis using False moving_average_nth [OF i, of w] l
      by (simp only: calculateMean_def js_len_def if_False)
  qed
  with l show "let k = min (i + 1) (nat w); window = take k (drop (i + 1 - k) data)
        in length window = k
           \<and> calculateMovingAverage data w ! i =
               (if w \<le> 0 then Num 0 else js_div (js_sum window) (Num (of_nat k)))"
    by (simp only: Let_def)
next
  fix t assume t: "analyzeImprovementTrends subs = Inr t"
  note r = trends_result [OF t]
  show "sorted (map sm_date (tr_accuracy t))" unfolding r(1) by simp
  show "sorted (map pt_date (tr_speed t))" unfolding r(2) by simp
  show "map sm_date (tr_accuracy t) = sort (map h_date subs)" by (rule r(1))
  show "map pt_date (tr_speed t) = sort (map h_date subs)" by (rule r(2))
  show "map sm_raw (tr_accuracy t) = map sub_accuracy_pct (sort_key h_date subs)"
    by (rule r(3))
  show "map pt_value (tr_speed t) = map h_speed (sort_key h_date subs)" by (rule r(5))
  show "map sm_value (tr_accuracy t) = calculateMovingAverage (map sm_raw (tr_accuracy t)) 3"
    by (rule r(4))
next
  fix e assume "analyzeImprovementTrends subs = Inl e"
  then have "push_topics [] (sort_key h_date subs) = Inl e"
    by (auto simp: analyzeImprovementTrends_def Let_def split: sum.splits)
  from push_topics_error [OF this]
  show "\<exists>s \<in> set subs. \<exists>topic. h_topic s = Some topic \<and> inherited_key topic" by simp
qed

lemma sample_moving_average:
  "calculateMovingAverage sample_series 3 = [Num 10, Num 15, Num 30, Num (110 / 3)]"
  by (simp add: calculateMovingAverage_def sample_series_def calculateMean_def js_slice_def
      js_sum_def js_len_def Let_def upt_rec)

lemma sample_trends:
  "analyzeImprovementTrends trend_subs =
     Inr \<lparr> tr_accuracy =
             [\<lparr> sm_date = 100, sm_value = Num 60, sm_raw = Num 60 \<rparr>,
              \<lparr> sm_date = 200, sm_value = Num 45, sm_raw = Num 30 \<rparr>,
              \<lparr> sm_date = 300, sm_value = Num 60, sm_raw = Num 90 \<rparr>],
           tr_speed =
             [\<lparr> pt_date = 100, pt_value = Num 80 \<rparr>,
              \<lparr> pt_date = 200, pt_value = Num 90 \<rparr>,
              \<lparr> pt_date = 300, pt_value = Num 95 \<rparr>],
           topicWise =
             [(''Chemistry'', [\<lparr> tw_date = 100, tw_accuracy = Num 60, tw_speed = Num 80 \<rparr>]),
              (''Biology'', [\<lparr> tw_date = 300, tw_accuracy = Num 90, tw_speed = Num 95 \<rparr>])] \<rparr>"
  by (simp add: analyzeImprovementTrends_def trend_subs_def Let_def push_topic_def
      inherited_key_def sub_accuracy_pct_def calculateMovingAverage_def calculateMean_def
      js_slice_def js_sum_def js_len_def upt_rec)

theorem moving_average_and_trends_witness:
  "calculateMovingAverage sample_series 3 = [Num 10, Num 15, Num 30, Num (110 / 3)]
   \<and> length (calculateMovingAverage sample_series 3) = length sample_series
   \<and> (\<exists>t. analyzeImprovementTrends trend_subs = Inr t
        \<and> map sm_date (tr_accuracy t) = [100, 200, 300]
        \<and> map sm_raw (tr_accuracy t) = [Num 60, Num 30, Num 90]
        \<and> map sm_value (tr_accuracy t) = [Num 60, Num 45, Num 60]
        \<and> map pt_date (tr_speed t) = [100, 200, 300]
        \<and> sorted (map sm_date (tr_accuracy t)))"
  using moving_average_and_trends [of sample_series 3 trend_subs]
    sample_moving_average sample_trends
  by (simp add: sample_series_def)

section \<open>College tiers\<close>

text \<open>
  C10. Every tier returned by \<open>getPotentialColleges\<close> has probability 0.9 or 0.7: the
  filter keeps only tiers with \<open>predictedRank <= maxRank\<close>, so the 0.3 branch of
  \<open>calculateCollegeProbability\<close> is never taken for a returned tier.
\<close>

theorem potential_colleges_probability:
  "\<forall>c \<in> set (getPotentialColleges r).
     probability c = Num (9 / 10) \<or> probability c = Num (7 / 10)"
  by (auto simp: getPotentialColleges_def collegeTiers_def calculateCollegeProbability_def
      Let_def)

text \<open>Rank 950 lies inside the 10% buffer of tier 1 and clear of it for tiers 2 and 3.\<close>

theorem potential_colleges_probability_witness:
  "map probability (getPotentialColleges (Num 950)) = [Num (7 / 10), Num (9 / 10), Num (9 / 10)]
   \<and> list_all (\<lambda>c. probability c = Num (9 / 10) \<or> probability c = Num (7 / 10))
         (getPotentialColleges (Num 950))"
  using potential_colleges_probability [of "Num 950"]
  by (simp add: getPotentialColleges_def collegeTiers_def calculateCollegeProbability_def
      Let_def js_le_def js_sub_def)

end
